theory Spec2Isabelle
  imports Complex_Main "HOL-Library.Sublist"
begin

section \<open>Data model\<close>

text \<open>
  The dashboard script \<^verbatim>\<open>streamlit_app.py\<close> works on one table. A row of the table is a
  record; the columns the script reads are its fields, every other column of the CSV
  file travels in the record's extension. A categorical cell is a string, or missing
  (the table library's \<^verbatim>\<open>NaN\<close>); a numeric cell is a number, or missing. Numbers are
  modelled as reals: rounding of binary floating point is not part of the model.

  The two date columns change their type during the load: text cells after
  \<^verbatim>\<open>read_csv\<close>, timestamps after \<^verbatim>\<open>to_datetime\<close>. The row type is therefore
  polymorphic in the type of a date cell. A timestamp is a count of nanoseconds since
  the epoch, a missing timestamp (\<^verbatim>\<open>NaT\<close>) is \<open>None\<close>. Timestamps and durations
  are unbounded integers: the 64-bit range of the library's timestamps is not part of
  the model, so two dates more than 292 years apart are outside it.
\<close>

type_synonym timestamp = int
type_synonym timedelta = int

record 'd csv_row =
  Gender :: "string option"
  Medical_Condition :: "string option"
  Hospital :: "string option"
  Age :: "real option"
  Billing_Amount :: "real option"
  Date_of_Admission :: 'd
  Discharge_Date :: 'd

record patient = "timestamp option csv_row" +
  Length_of_Stay :: "int option"

section \<open>Loading: \<^verbatim>\<open>load_data\<close>\<close>

definition ns_per_day :: int where
  "ns_per_day = 86400000000000"

text \<open>
  \<^verbatim>\<open>pd.to_datetime(column, errors='coerce')\<close>, cell by cell: a missing cell stays
  missing, a text cell is given to the library's parser, and a cell the parser rejects
  becomes \<^verbatim>\<open>NaT\<close> instead of raising. The parser is a parameter.
\<close>

definition to_datetime :: "(string \<Rightarrow> timestamp option) \<Rightarrow> string option \<Rightarrow> timestamp option" where
  "to_datetime parse cell = (case cell of None \<Rightarrow> None | Some s \<Rightarrow> parse s)"

text \<open>Subtraction of two timestamp cells: \<^verbatim>\<open>NaT\<close> on either side gives \<^verbatim>\<open>NaT\<close>.\<close>

definition ts_sub :: "timestamp option \<Rightarrow> timestamp option \<Rightarrow> timedelta option" where
  "ts_sub x y = (case x of None \<Rightarrow> None
                 | Some a \<Rightarrow> (case y of None \<Rightarrow> None | Some b \<Rightarrow> Some (a - b)))"

text \<open>
  The \<^verbatim>\<open>.dt.days\<close> accessor: the days component of a duration, which rounds towards
  minus infinity (a duration of minus one hour has \<open>-1\<close> days), as \<open>div\<close> on \<open>int\<close> does.
\<close>

definition dt_days :: "timedelta option \<Rightarrow> int option" where
  "dt_days t = (case t of None \<Rightarrow> None | Some n \<Rightarrow> Some (n div ns_per_day))"

text \<open>Lines 13, 14 and 16 of the script on one row.\<close>

definition load_row :: "(string \<Rightarrow> timestamp option) \<Rightarrow> string option csv_row \<Rightarrow> patient" where
  "load_row parse r =
     (let adm = to_datetime parse (Date_of_Admission r);
          dis = to_datetime parse (Discharge_Date r)
      in \<lparr> Gender = Gender r,
           Medical_Condition = Medical_Condition r,
           Hospital = Hospital r,
           Age = Age r,
           Billing_Amount = Billing_Amount r,
           Date_of_Admission = adm,
           Discharge_Date = dis,
           Length_of_Stay = dt_days (ts_sub dis adm) \<rparr>)"

definition load_data :: "(string \<Rightarrow> timestamp option) \<Rightarrow> string option csv_row list \<Rightarrow> patient list" where
  "load_data parse raw = map (load_row parse) raw"

subsection \<open>A parser for ISO dates\<close>

text \<open>
  The library's parser accepts many formats. For the examples a parser of the one format
  \<^verbatim>\<open>YYYY-MM-DD\<close> is enough: it rejects everything else, and gives midnight of a valid
  calendar day as its day number since 1970-01-01 times \<open>ns_per_day\<close>.
\<close>

definition digit_of :: "char \<Rightarrow> int option" where
  "digit_of c =
     map_of [(CHR ''0'', 0), (CHR ''1'', 1), (CHR ''2'', 2), (CHR ''3'', 3), (CHR ''4'', 4),
             (CHR ''5'', 5), (CHR ''6'', 6), (CHR ''7'', 7), (CHR ''8'', 8), (CHR ''9'', 9)] c"

fun number_of :: "int \<Rightarrow> string \<Rightarrow> int option" where
  "number_of acc [] = Some acc"
| "number_of acc (c # cs) =
     (case digit_of c of None \<Rightarrow> None | Some d \<Rightarrow> number_of (10 * acc + d) cs)"

definition is_leap :: "int \<Rightarrow> bool" where
  "is_leap y = (y mod 4 = 0 \<and> (y mod 100 \<noteq> 0 \<or> y mod 400 = 0))"

definition days_in_month :: "int \<Rightarrow> int \<Rightarrow> int" where
  "days_in_month y m =
     (if m = 2 then (if is_leap y then 29 else 28)
      else if m = 4 \<or> m = 6 \<or> m = 9 \<or> m = 11 then 30 else 31)"

definition days_from_civil :: "int \<Rightarrow> int \<Rightarrow> int \<Rightarrow> int" where
  "days_from_civil y m d =
     (let y' = (if m \<le> 2 then y - 1 else y);
          era = y' div 400;
          yoe = y' - era * 400;
          doy = (153 * (if m > 2 then m - 3 else m + 9) + 2) div 5 + d - 1;
          doe = yoe * 365 + yoe div 4 - yoe div 100 + doy
      in era * 146097 + doe - 719468)"

definition parse_iso_date :: "string \<Rightarrow> timestamp option" where
  "parse_iso_date s =
     (if length s = 10 \<and> s ! 4 = CHR ''-'' \<and> s ! 7 = CHR ''-'' then
        (case (number_of 0 (take 4 s), number_of 0 (take 2 (drop 5 s)), number_of 0 (drop 8 s)) of
           (Some y, Some m, Some d) \<Rightarrow>
             (if 1 \<le> m \<and> m \<le> 12 \<and> 1 \<le> d \<and> d \<le> days_in_month y m
              then Some (days_from_civil y m d * ns_per_day) else None)
         | _ \<Rightarrow> None)
      else None)"

section \<open>Filtering: \<^verbatim>\<open>filtered_df\<close>\<close>

text \<open>
  The comparison \<^verbatim>\<open>column == selected\<close> of the table library, on one cell: a missing
  cell equals nothing, and nothing equals a missing selection.
\<close>

definition cell_eq :: "string option \<Rightarrow> string option \<Rightarrow> bool" where
  "cell_eq cell selected =
     (case cell of None \<Rightarrow> False
      | Some a \<Rightarrow> (case selected of None \<Rightarrow> False | Some b \<Rightarrow> a = b))"

text \<open>
  The select boxes offer \<^verbatim>\<open>'All'\<close> and the distinct values of the column, so a selection
  is a string or, when the column has a missing cell, the missing value.
  Lines 35-36 and 37-38, each on the contents of the frame it is given.
\<close>

definition filter_gender :: "string option \<Rightarrow> ('d, 'm) csv_row_scheme list \<Rightarrow> ('d, 'm) csv_row_scheme list" where
  "filter_gender selected_gender rows =
     (if selected_gender \<noteq> Some ''All''
      then filter (\<lambda>r. cell_eq (Gender r) selected_gender) rows else rows)"

definition filter_condition :: "string option \<Rightarrow> ('d, 'm) csv_row_scheme list \<Rightarrow> ('d, 'm) csv_row_scheme list" where
  "filter_condition selected_condition rows =
     (if selected_condition \<noteq> Some ''All''
      then filter (\<lambda>r. cell_eq (Medical_Condition r) selected_condition) rows else rows)"

text \<open>Lines 34-38 as a function of the contents of \<^verbatim>\<open>df\<close>.\<close>

definition filter_rows :: "string option \<Rightarrow> string option \<Rightarrow> ('d, 'm) csv_row_scheme list \<Rightarrow> ('d, 'm) csv_row_scheme list" where
  "filter_rows selected_gender selected_condition rows =
     filter_condition selected_condition (filter_gender selected_gender rows)"

text \<open>
  The contract of \<^verbatim>\<open>filter\<close> in the specification's words: a record is kept when it
  matches every predicate that is provided, and \<^verbatim>\<open>'All'\<close> is a predicate not provided.
\<close>

definition spec_matches :: "string option \<Rightarrow> string option \<Rightarrow> ('d, 'm) csv_row_scheme \<Rightarrow> bool" where
  "spec_matches g c r =
     ((g = Some ''All'' \<or> cell_eq (Gender r) g) \<and>
      (c = Some ''All'' \<or> cell_eq (Medical_Condition r) c))"

subsection \<open>The script's variables and the frames they point to\<close>

text \<open>
  The script binds two names to table objects. Objects live in a store, an address is
  the position of the object in it. \<^verbatim>\<open>df.copy()\<close> and indexing with a boolean mask both
  build a new object; an assignment to a name rebinds the name and changes no object.
\<close>

record 'r session =
  frames :: "'r list list"
  df :: nat
  filtered_df :: nat

definition alloc :: "'r list \<Rightarrow> 'r list list \<Rightarrow> 'r list list \<times> nat" where
  "alloc fr store = (store @ [fr], length store)"

definition copy_df :: "'r session \<Rightarrow> 'r session" where
  "copy_df s =
     (let (store, a) = alloc (frames s ! df s) (frames s)
      in s\<lparr>frames := store, filtered_df := a\<rparr>)"

definition mask_gender :: "string option \<Rightarrow> ('d, 'm) csv_row_scheme session \<Rightarrow> ('d, 'm) csv_row_scheme session" where
  "mask_gender selected_gender s =
     (if selected_gender \<noteq> Some ''All'' then
        (let (store, a) =
               alloc (filter (\<lambda>r. cell_eq (Gender r) selected_gender) (frames s ! filtered_df s))
                 (frames s)
         in s\<lparr>frames := store, filtered_df := a\<rparr>)
      else s)"

definition mask_condition :: "string option \<Rightarrow> ('d, 'm) csv_row_scheme session \<Rightarrow> ('d, 'm) csv_row_scheme session" where
  "mask_condition selected_condition s =
     (if selected_condition \<noteq> Some ''All'' then
        (let (store, a) =
               alloc (filter (\<lambda>r. cell_eq (Medical_Condition r) selected_condition)
                        (frames s ! filtered_df s))
                 (frames s)
         in s\<lparr>frames := store, filtered_df := a\<rparr>)
      else s)"

definition run_filters :: "string option \<Rightarrow> string option \<Rightarrow> ('d, 'm) csv_row_scheme session \<Rightarrow> ('d, 'm) csv_row_scheme session" where
  "run_filters selected_gender selected_condition s =
     mask_condition selected_condition (mask_gender selected_gender (copy_df s))"

section \<open>The sidebar's overview\<close>

text \<open>
  \<^verbatim>\<open>Series.mean()\<close> skips missing cells; the mean of no value at all is \<^verbatim>\<open>NaN\<close>
  (here \<open>None\<close>), not an error.
\<close>

definition present :: "'a option list \<Rightarrow> 'a list" where
  "present col = concat (map (\<lambda>c. case c of None \<Rightarrow> [] | Some v \<Rightarrow> [v]) col)"

definition mean :: "real option list \<Rightarrow> real option" where
  "mean col =
     (let vs = present col
      in if length vs = 0 then None else Some (sum_list vs / real (length vs)))"

record summary =
  count :: nat
  mean_length_of_stay :: "real option"
  mean_billing_amount :: "real option"

definition days_column :: "('m) patient_scheme list \<Rightarrow> real option list" where
  "days_column rows = map (\<lambda>r. map_option real_of_int (Length_of_Stay r)) rows"

text \<open>Lines 44-46: the three numbers the sidebar prints.\<close>

definition summarize :: "('m) patient_scheme list \<Rightarrow> summary" where
  "summarize rows =
     \<lparr> count = length rows,
       mean_length_of_stay = mean (days_column rows),
       mean_billing_amount = mean (map Billing_Amount rows) \<rparr>"

section \<open>Cross-tabulation: \<^verbatim>\<open>gender_condition\<close>\<close>

text \<open>
  \<^verbatim>\<open>groupby([a, b]).size()\<close>: one pass over the rows that counts each observed pair of
  keys. A row with a missing cell in a key column belongs to no group.
\<close>

definition count_key :: "('a \<times> 'b \<rightharpoonup> nat) \<Rightarrow> 'a option \<Rightarrow> 'b option \<Rightarrow> ('a \<times> 'b \<rightharpoonup> nat)" where
  "count_key m ka kb =
     (case ka of None \<Rightarrow> m
      | Some a \<Rightarrow> (case kb of None \<Rightarrow> m
          | Some b \<Rightarrow> m((a, b) \<mapsto> (case m (a, b) of None \<Rightarrow> 1 | Some n \<Rightarrow> Suc n))))"

fun group_count_from :: "('a \<times> 'b \<rightharpoonup> nat) \<Rightarrow> ('r \<Rightarrow> 'a option) \<Rightarrow> ('r \<Rightarrow> 'b option) \<Rightarrow> 'r list \<Rightarrow> ('a \<times> 'b \<rightharpoonup> nat)" where
  "group_count_from m keyA keyB [] = m"
| "group_count_from m keyA keyB (r # rows) =
     group_count_from (count_key m (keyA r) (keyB r)) keyA keyB rows"

definition group_count :: "('r \<Rightarrow> 'a option) \<Rightarrow> ('r \<Rightarrow> 'b option) \<Rightarrow> 'r list \<Rightarrow> ('a \<times> 'b \<rightharpoonup> nat)" where
  "group_count keyA keyB rows = group_count_from Map.empty keyA keyB rows"

text \<open>
  \<^verbatim>\<open>.unstack().fillna(0)\<close>: the chart's table, in which a pair that was never observed
  reads zero. Line 70 is \<open>gender_condition\<close>.
\<close>

definition unstack_fillna :: "('a \<times> 'b \<rightharpoonup> nat) \<Rightarrow> 'a \<Rightarrow> 'b \<Rightarrow> nat" where
  "unstack_fillna m a b = (case m (a, b) of None \<Rightarrow> 0 | Some n \<Rightarrow> n)"

definition gender_condition :: "('d, 'm) csv_row_scheme list \<Rightarrow> string \<Rightarrow> string \<Rightarrow> nat" where
  "gender_condition rows = unstack_fillna (group_count Medical_Condition Gender rows)"

text \<open>The number of rows whose two key cells are present and equal to a given pair.\<close>

definition occurrences :: "('r \<Rightarrow> 'a option) \<Rightarrow> ('r \<Rightarrow> 'b option) \<Rightarrow> 'r list \<Rightarrow> 'a \<times> 'b \<Rightarrow> nat" where
  "occurrences keyA keyB rows k =
     length (filter (\<lambda>r. keyA r = Some (fst k) \<and> keyB r = Some (snd k)) rows)"

section \<open>Correlation: \<^verbatim>\<open>corr\<close>\<close>









section \<open>Example tables\<close>

definition stay :: "string option \<Rightarrow> string option \<Rightarrow> string option csv_row" where
  "stay adm dis =
     \<lparr> Gender = None, Medical_Condition = None, Hospital = None, Age = None,
       Billing_Amount = None, Date_of_Admission = adm, Discharge_Date = dis \<rparr>"

definition two_stays :: "string option csv_row list" where
  "two_stays =
     [stay (Some ''2020-01-01'') (Some ''2020-01-05''),
      stay (Some ''2020-02-01'') (Some ''unparseable'')]"

definition reversed_stay :: "string option csv_row list" where
  "reversed_stay = [stay (Some ''2020-01-05'') (Some ''2020-01-01'')]"

definition person :: "string \<Rightarrow> string \<Rightarrow> string option csv_row" where
  "person g c =
     \<lparr> Gender = Some g, Medical_Condition = Some c, Hospital = None, Age = None,
       Billing_Amount = None, Date_of_Admission = None, Discharge_Date = None \<rparr>"

definition three_male_diabetes :: "string option csv_row list" where
  "three_male_diabetes =
     [person ''Male'' ''Diabetes'', person ''Male'' ''Diabetes'', person ''Male'' ''Diabetes'']"

definition mixed_ward :: "string option csv_row list" where
  "mixed_ward =
     [person ''Male'' ''Diabetes'', person ''Female'' ''Asthma'',
      person ''Male'' ''Asthma'', person ''Female'' ''Diabetes'']"



definition unknown_visit :: patient where
  "unknown_visit =
     \<lparr> Gender = None, Medical_Condition = None, Hospital = None, Age = None,
       Billing_Amount = None, Date_of_Admission = None, Discharge_Date = None,
       Length_of_Stay = None \<rparr>"

section \<open>Properties of the load\<close>

lemma load_row_dates:
  "Date_of_Admission (load_row parse r) = to_datetime parse (Date_of_Admission r)"
  "Discharge_Date (load_row parse r) = to_datetime parse (Discharge_Date r)"
  by (simp_all add: load_row_def Let_def)

lemma load_row_length_of_stay:
  "Length_of_Stay (load_row parse r) =
     dt_days (ts_sub (to_datetime parse (Discharge_Date r)) (to_datetime parse (Date_of_Admission r)))"
  by (simp add: load_row_def Let_def)

lemma load_data_length: "length (load_data parse raw) = length raw"
  by (simp add: load_data_def)

lemma load_data_nth: "i < length raw \<Longrightarrow> load_data parse raw ! i = load_row parse (raw ! i)"
  by (simp add: load_data_def)

lemma parse_iso_examples:
  "parse_iso_date ''2020-01-01'' = Some (18262 * ns_per_day)"
  "parse_iso_date ''2020-01-05'' = Some (18266 * ns_per_day)"
  "parse_iso_date ''2020-02-01'' = Some (18293 * ns_per_day)"
  "parse_iso_date ''unparseable'' = None"
  by (simp_all add: parse_iso_date_def digit_of_def days_in_month_def days_from_civil_def is_leap_def)

text \<open>
  Claim C1. For every record of the loaded table whose Date of Admission and Discharge
  Date both parsed, Length of Stay is the difference Discharge Date minus Date of
  Admission in whole days: the quotient of the difference by the length of a day,
  rounded down, and for two dates at midnight exactly the difference of their day
  numbers. Nothing is clamped; the example has a stay of minus four days.
\<close>

theorem length_of_stay_day_difference:
  assumes "i < length raw"
    and "Date_of_Admission (load_data parse raw ! i) = Some a"
    and "Discharge_Date (load_data parse raw ! i) = Some d"
  shows "Length_of_Stay (load_data parse raw ! i) = Some ((d - a) div ns_per_day) \<and>
         (\<forall>da dd. a = da * ns_per_day \<and> d = dd * ns_per_day \<longrightarrow>
            Length_of_Stay (load_data parse raw ! i) = Some (dd - da))"
proof -
  have row: "load_data parse raw ! i = load_row parse (raw ! i)"
    using assms(1) by (rule load_data_nth)
  from assms(2,3) have los: "Length_of_Stay (load_data parse raw ! i) = Some ((d - a) div ns_per_day)"
    by (simp add: row load_row_dates load_row_length_of_stay ts_sub_def dt_days_def)
  have "(dd * ns_per_day - da * ns_per_day) div ns_per_day = dd - da" for da dd
  proof -
    have "dd * ns_per_day - da * ns_per_day = (dd - da) * ns_per_day"
      by (simp add: algebra_simps)
    then show ?thesis by (simp add: ns_per_day_def)
  qed
  with los show ?thesis by simp
qed

theorem length_of_stay_day_difference_witness:
  "Date_of_Admission (load_data parse_iso_date reversed_stay ! 0) = Some (18266 * ns_per_day) \<and>
   Discharge_Date (load_data parse_iso_date reversed_stay ! 0) = Some (18262 * ns_per_day) \<and>
   Length_of_Stay (load_data parse_iso_date reversed_stay ! 0) = Some (- 4)"
proof -
  have len: "0 < length reversed_stay" by (simp add: reversed_stay_def)
  have a: "Date_of_Admission (load_data parse_iso_date reversed_stay ! 0) = Some (18266 * ns_per_day)"
    by (simp add: load_data_def load_row_dates reversed_stay_def stay_def to_datetime_def parse_iso_examples)
  have d: "Discharge_Date (load_data parse_iso_date reversed_stay ! 0) = Some (18262 * ns_per_day)"
    by (simp add: load_data_def load_row_dates reversed_stay_def stay_def to_datetime_def parse_iso_examples)
  from length_of_stay_day_difference [OF len a d]
  have "Length_of_Stay (load_data parse_iso_date reversed_stay ! 0) = Some (18262 - 18266)"
    by blast
  with a d show ?thesis by simp
qed

text \<open>
  Claim C3. When one of the two date cells of a record does not parse, the load still
  returns every record, the cell holds the missing marker, and the record's Length of
  Stay is missing too, whatever the other date is.
\<close>

theorem unparsed_date_is_missing:
  assumes "i < length raw"
    and "to_datetime parse (Date_of_Admission (raw ! i)) = None \<or>
         to_datetime parse (Discharge_Date (raw ! i)) = None"
  shows "length (load_data parse raw) = length raw \<and>
         Date_of_Admission (load_data parse raw ! i) = to_datetime parse (Date_of_Admission (raw ! i)) \<and>
         Discharge_Date (load_data parse raw ! i) = to_datetime parse (Discharge_Date (raw ! i)) \<and>
         Length_of_Stay (load_data parse raw ! i) = None"
proof -
  have row: "load_data parse raw ! i = load_row parse (raw ! i)"
    using assms(1) by (rule load_data_nth)
  from assms(2) have "Length_of_Stay (load_row parse (raw ! i)) = None"
    by (auto simp: load_row_length_of_stay ts_sub_def dt_days_def split: option.splits)
  then show ?thesis
    by (simp add: row load_row_dates load_data_length)
qed

theorem unparsed_date_is_missing_witness:
  "Date_of_Admission (load_data parse_iso_date two_stays ! 1) = Some (18293 * ns_per_day) \<and>
   Discharge_Date (load_data parse_iso_date two_stays ! 1) = None \<and>
   Length_of_Stay (load_data parse_iso_date two_stays ! 1) = None \<and>
   length (load_data parse_iso_date two_stays) = 2"
proof -
  have len: "1 < length two_stays" by (simp add: two_stays_def)
  have bad: "to_datetime parse_iso_date (Date_of_Admission (two_stays ! 1)) = None \<or>
             to_datetime parse_iso_date (Discharge_Date (two_stays ! 1)) = None"
    by (simp add: two_stays_def stay_def to_datetime_def parse_iso_examples)
  from unparsed_date_is_missing [OF len bad] show ?thesis
    by (simp add: two_stays_def stay_def to_datetime_def parse_iso_examples)
qed

section \<open>Properties of the filter\<close>

lemma filter_gender_filter:
  "filter_gender g rows = filter (\<lambda>r. g = Some ''All'' \<or> cell_eq (Gender r) g) rows"
  by (simp add: filter_gender_def)

lemma filter_condition_filter:
  "filter_condition c rows = filter (\<lambda>r. c = Some ''All'' \<or> cell_eq (Medical_Condition r) c) rows"
  by (simp add: filter_condition_def)

lemma filter_rows_filter: "filter_rows g c rows = filter (spec_matches g c) rows"
  unfolding filter_rows_def filter_gender_filter filter_condition_filter filter_filter
  by (rule filter_cong) (auto simp: spec_matches_def)

text \<open>
  Claim C5. The filter returns exactly the records that satisfy every predicate provided,
  in the order of the input (a subsequence of it); a predicate left at \<^verbatim>\<open>'All'\<close>
  matches every record, and with both left at \<^verbatim>\<open>'All'\<close> the result is the input.
\<close>

theorem filter_rows_subsequence:
  "filter_rows g c rows = filter (spec_matches g c) rows \<and>
   subseq (filter_rows g c rows) rows \<and>
   filter_rows (Some ''All'') (Some ''All'') rows = rows"
proof -
  have "filter_rows (Some ''All'') (Some ''All'') rows = rows"
    by (simp add: filter_rows_def filter_gender_def filter_condition_def)
  then show ?thesis by (simp add: filter_rows_filter)
qed

theorem filter_rows_subsequence_witness:
  "filter_rows (Some ''Male'') (Some ''All'') mixed_ward =
     [person ''Male'' ''Diabetes'', person ''Male'' ''Asthma''] \<and>
   filter_rows (Some ''All'') (Some ''All'') mixed_ward = mixed_ward"
proof -
  have "filter (spec_matches (Some ''Male'') (Some ''All'')) mixed_ward =
          [person ''Male'' ''Diabetes'', person ''Male'' ''Asthma'']"
    by (simp add: mixed_ward_def spec_matches_def cell_eq_def person_def)
  with filter_rows_subsequence [of "Some ''Male''" "Some ''All''" mixed_ward]
    filter_rows_subsequence [of "Some ''All''" "Some ''All''" mixed_ward]
  show ?thesis by simp
qed

text \<open>
  Claim C6. Filtering a filtered table again with the same two selections changes nothing.
\<close>

theorem filter_rows_idempotent:
  "filter_rows g c (filter_rows g c rows) = filter_rows g c rows"
  by (simp add: filter_rows_filter)

theorem filter_rows_idempotent_witness:
  "filter_rows (Some ''Female'') (Some ''Asthma'')
     (filter_rows (Some ''Female'') (Some ''Asthma'') mixed_ward) = [person ''Female'' ''Asthma'']"
proof -
  have "filter_rows (Some ''Female'') (Some ''Asthma'') mixed_ward = [person ''Female'' ''Asthma'']"
    by (simp add: filter_rows_filter mixed_ward_def spec_matches_def cell_eq_def person_def)
  with filter_rows_idempotent [of "Some ''Female''" "Some ''Asthma''" mixed_ward]
  show ?thesis by simp
qed

text \<open>
  Claim C10. The gender filter followed by the condition filter gives the same records
  in the same order as the condition filter followed by the gender filter, and both
  are the filter of the script.
\<close>

theorem filters_commute:
  "filter_condition c (filter_gender g rows) = filter_gender g (filter_condition c rows) \<and>
   filter_condition c (filter_gender g rows) = filter_rows g c rows \<and>
   filter_gender g (filter_condition c rows) = filter_rows g c rows"
proof -
  have "filter_condition c (filter_gender g rows) = filter_gender g (filter_condition c rows)"
    by (simp add: filter_gender_filter filter_condition_filter conj_commute)
  then show ?thesis by (simp add: filter_rows_def)
qed

theorem filters_commute_witness:
  "filter_gender (Some ''Female'') (filter_condition (Some ''Diabetes'') mixed_ward) =
     [person ''Female'' ''Diabetes''] \<and>
   filter_condition (Some ''Diabetes'') (filter_gender (Some ''Female'') mixed_ward) =
     [person ''Female'' ''Diabetes'']"
proof -
  have "filter_rows (Some ''Female'') (Some ''Diabetes'') mixed_ward = [person ''Female'' ''Diabetes'']"
    by (simp add: filter_rows_filter mixed_ward_def spec_matches_def cell_eq_def person_def)
  with filters_commute [of "Some ''Diabetes''" "Some ''Female''" mixed_ward]
  show ?thesis by simp
qed

subsection \<open>The loaded table is not touched\<close>

lemma copy_df_frames:
  "df (copy_df s) = df s"
  "frames (copy_df s) = frames s @ [frames s ! df s]"
  "filtered_df (copy_df s) = length (frames s)"
  by (simp_all add: copy_df_def alloc_def)

lemma mask_gender_frames:
  "df (mask_gender g s) = df s"
  "prefix (frames s) (frames (mask_gender g s))"
  by (simp_all add: mask_gender_def alloc_def)

lemma mask_condition_frames:
  "df (mask_condition c s) = df s"
  "prefix (frames s) (frames (mask_condition c s))"
  by (simp_all add: mask_condition_def alloc_def)

lemma run_filters_frames:
  "df (run_filters g c s) = df s"
  "prefix (frames s) (frames (run_filters g c s))"
proof -
  show "df (run_filters g c s) = df s"
    by (simp add: run_filters_def mask_condition_frames mask_gender_frames copy_df_frames)
  have "prefix (frames s) (frames (copy_df s))"
    by (simp add: copy_df_frames)
  also have "prefix (frames (copy_df s)) (frames (mask_gender g (copy_df s)))"
    by (rule mask_gender_frames)
  also have "prefix (frames (mask_gender g (copy_df s))) (frames (run_filters g c s))"
    unfolding run_filters_def by (rule mask_condition_frames)
  finally show "prefix (frames s) (frames (run_filters g c s))" .
qed

lemma mask_gender_contents:
  "filtered_df s < length (frames s) \<Longrightarrow>
   filtered_df (mask_gender g s) < length (frames (mask_gender g s)) \<and>
   frames (mask_gender g s) ! filtered_df (mask_gender g s) =
     filter_gender g (frames s ! filtered_df s)"
  by (simp add: mask_gender_def filter_gender_def alloc_def)

lemma mask_condition_contents:
  "filtered_df s < length (frames s) \<Longrightarrow>
   filtered_df (mask_condition c s) < length (frames (mask_condition c s)) \<and>
   frames (mask_condition c s) ! filtered_df (mask_condition c s) =
     filter_condition c (frames s ! filtered_df s)"
  by (simp add: mask_condition_def filter_condition_def alloc_def)

lemma run_filters_contents:
  "frames (run_filters g c s) ! filtered_df (run_filters g c s) =
     filter_rows g c (frames s ! df s)"
proof -
  have c: "filtered_df (copy_df s) < length (frames (copy_df s))"
    "frames (copy_df s) ! filtered_df (copy_df s) = frames s ! df s"
    by (simp_all add: copy_df_frames)
  from mask_gender_contents [OF c(1), of g] c(2)
  have g: "filtered_df (mask_gender g (copy_df s)) < length (frames (mask_gender g (copy_df s)))"
    "frames (mask_gender g (copy_df s)) ! filtered_df (mask_gender g (copy_df s)) =
       filter_gender g (frames s ! df s)"
    by simp_all
  from mask_condition_contents [OF g(1), of c] g(2)
  show ?thesis by (simp add: run_filters_def filter_rows_def)
qed

text \<open>
  Claim C9. Running the filter leaves the loaded table as it was: the name \<^verbatim>\<open>df\<close>
  still points to the same object, that object has the same records with the same
  field values in the same order, no object that existed before has changed, and the
  filtered records are in an object of their own.
\<close>

theorem run_filters_leaves_df:
  assumes "df s < length (frames s)"
  shows "df (run_filters g c s) = df s \<and>
         frames (run_filters g c s) ! df (run_filters g c s) = frames s ! df s \<and>
         take (length (frames s)) (frames (run_filters g c s)) = frames s \<and>
         frames (run_filters g c s) ! filtered_df (run_filters g c s) =
           filter_rows g c (frames s ! df s)"
proof -
  obtain ext where ext: "frames (run_filters g c s) = frames s @ ext"
    using run_filters_frames(2) [of s g c] by (auto simp: prefix_def)
  from assms have "frames (run_filters g c s) ! df s = frames s ! df s"
    by (simp add: ext nth_append)
  moreover have "take (length (frames s)) (frames (run_filters g c s)) = frames s"
    by (simp add: ext)
  ultimately show ?thesis
    by (simp add: run_filters_frames(1) run_filters_contents)
qed

theorem run_filters_leaves_df_witness:
  "df (run_filters (Some ''Male'') (Some ''Asthma'') \<lparr>frames = [mixed_ward], df = 0, filtered_df = 0\<rparr>) = 0 \<and>
   frames (run_filters (Some ''Male'') (Some ''Asthma'') \<lparr>frames = [mixed_ward], df = 0, filtered_df = 0\<rparr>) ! 0
     = mixed_ward"
proof -
  have "df \<lparr>frames = [mixed_ward], df = 0, filtered_df = 0\<rparr>
          < length (frames \<lparr>frames = [mixed_ward], df = 0, filtered_df = 0\<rparr>)"
    by simp
  from run_filters_leaves_df [OF this, of "Some ''Male''" "Some ''Asthma''"]
  show ?thesis by (elim conjE) simp
qed

section \<open>Properties of the overview\<close>

lemma present_all_missing: "(\<forall>c\<in>set col. c = None) \<Longrightarrow> present col = []"
  by (induction col) (simp_all add: present_def)

lemma mean_all_missing: "(\<forall>c\<in>set col. c = None) \<Longrightarrow> mean col = None"
  by (simp add: mean_def present_all_missing)

text \<open>
  Claim C4. The overview is defined on tables with missing values: on the empty table it
  gives count 0 and the undefined value \<^verbatim>\<open>NaN\<close> for both means, the count is always
  the number of records, and a mean over a column whose cells are all missing is
  \<^verbatim>\<open>NaN\<close> as well. No case of the computation divides by zero or raises.
\<close>

theorem summarize_empty_or_missing:
  fixes rows :: "'m patient_scheme list"
  shows "summarize ([] :: 'm patient_scheme list) = \<lparr> count = 0, mean_length_of_stay = None, mean_billing_amount = None \<rparr> \<and>
   count (summarize rows) = length rows \<and>
   ((\<forall>r\<in>set rows. Length_of_Stay r = None) \<longrightarrow> mean_length_of_stay (summarize rows) = None) \<and>
   ((\<forall>r\<in>set rows. Billing_Amount r = None) \<longrightarrow> mean_billing_amount (summarize rows) = None)"
proof -
  have "summarize ([] :: 'm patient_scheme list) =
          \<lparr> count = 0, mean_length_of_stay = None, mean_billing_amount = None \<rparr>"
    by (simp add: summarize_def days_column_def mean_def present_def)
  moreover have "count (summarize rows) = length rows"
    by (simp add: summarize_def)
  moreover have "mean_length_of_stay (summarize rows) = None"
    if "\<forall>r\<in>set rows. Length_of_Stay r = None"
    using that by (simp add: summarize_def days_column_def mean_all_missing)
  moreover have "mean_billing_amount (summarize rows) = None"
    if "\<forall>r\<in>set rows. Billing_Amount r = None"
    using that by (simp add: summarize_def mean_all_missing)
  ultimately show ?thesis by blast
qed

theorem summarize_empty_or_missing_witness:
  "summarize [unknown_visit, unknown_visit] =
     \<lparr> count = 2, mean_length_of_stay = None, mean_billing_amount = None \<rparr>"
proof -
  have l: "\<forall>r\<in>set [unknown_visit, unknown_visit]. Length_of_Stay r = None"
    by (simp add: unknown_visit_def)
  have b: "\<forall>r\<in>set [unknown_visit, unknown_visit]. Billing_Amount r = None"
    by (simp add: unknown_visit_def)
  from summarize_empty_or_missing [of "[unknown_visit, unknown_visit]"] l b
  have "count (summarize [unknown_visit, unknown_visit]) = 2"
    and "mean_length_of_stay (summarize [unknown_visit, unknown_visit]) = None"
    and "mean_billing_amount (summarize [unknown_visit, unknown_visit]) = None"
    by (simp_all add: numeral_2_eq_2)
  then show ?thesis by (cases "summarize [unknown_visit, unknown_visit]") simp
qed


section \<open>Properties of the cross-tabulation\<close>

lemma count_key_lookup:
  "count_key m ka kb k =
     (if ka = Some (fst k) \<and> kb = Some (snd k)
      then Some (Suc (case m k of None \<Rightarrow> 0 | Some n \<Rightarrow> n)) else m k)"
  by (cases k) (auto simp: count_key_def split: option.splits)

lemma group_count_from_lookup:
  "group_count_from m keyA keyB rows k =
     (if occurrences keyA keyB rows k = 0 then m k
      else Some (occurrences keyA keyB rows k + (case m k of None \<Rightarrow> 0 | Some n \<Rightarrow> n)))"
proof (induction rows arbitrary: m)
  case Nil
  then show ?case by (simp add: occurrences_def)
next
  case (Cons r rows)
  show ?case
    by (simp add: Cons.IH count_key_lookup) (simp add: occurrences_def)
qed

lemma group_count_lookup:
  "group_count keyA keyB rows k =
     (if occurrences keyA keyB rows k = 0 then None else Some (occurrences keyA keyB rows k))"
  by (simp add: group_count_def group_count_from_lookup)

text \<open>
  The table of the chart reads the number of matching records for every pair, zero for a
  pair that was never observed.
\<close>

lemma gender_condition_counts:
  "gender_condition rows c g = occurrences Medical_Condition Gender rows (c, g)"
  by (simp add: gender_condition_def unstack_fillna_def group_count_lookup)

text \<open>
  Claim C2. For every table and every pair of key columns, the group count maps a pair
  of key values to the number of records that carry it, a positive number, and has no
  entry for a pair that no record carries. On three Male/Diabetes records the mapping
  is the single entry (Diabetes, Male) with count 3, with no entry for
  (Diabetes, Female).
\<close>

theorem group_count_observed_only:
  "(group_count keyA keyB rows k = None \<longleftrightarrow> occurrences keyA keyB rows k = 0) \<and>
   (\<forall>n. group_count keyA keyB rows k = Some n \<longrightarrow> 0 < n \<and> n = occurrences keyA keyB rows k)"
  by (simp add: group_count_lookup)

theorem group_count_observed_only_witness:
  "group_count Medical_Condition Gender three_male_diabetes (''Diabetes'', ''Female'') = None \<and>
   group_count Medical_Condition Gender three_male_diabetes (''Diabetes'', ''Male'') = Some 3 \<and>
   dom (group_count Medical_Condition Gender three_male_diabetes) = {(''Diabetes'', ''Male'')}"
proof -
  have f: "occurrences Medical_Condition Gender three_male_diabetes (''Diabetes'', ''Female'') = 0"
    by (simp add: occurrences_def three_male_diabetes_def person_def)
  have m: "occurrences Medical_Condition Gender three_male_diabetes (''Diabetes'', ''Male'') = 3"
    by (simp add: occurrences_def three_male_diabetes_def person_def)
  have o: "occurrences Medical_Condition Gender three_male_diabetes k = 0"
    if "k \<noteq> (''Diabetes'', ''Male'')" for k
    using that by (cases k) (auto simp: occurrences_def three_male_diabetes_def person_def)
  have none: "group_count Medical_Condition Gender three_male_diabetes (''Diabetes'', ''Female'') = None"
    using group_count_observed_only [of Medical_Condition Gender three_male_diabetes "(''Diabetes'', ''Female'')"] f
    by simp
  have some: "group_count Medical_Condition Gender three_male_diabetes (''Diabetes'', ''Male'') = Some 3"
    using group_count_observed_only [of Medical_Condition Gender three_male_diabetes "(''Diabetes'', ''Male'')"] m
    by (cases "group_count Medical_Condition Gender three_male_diabetes (''Diabetes'', ''Male'')") simp_all
  have "k \<in> dom (group_count Medical_Condition Gender three_male_diabetes) \<longleftrightarrow> k = (''Diabetes'', ''Male'')" for k
    using group_count_observed_only [of Medical_Condition Gender three_male_diabetes k] o [of k] some
    by (cases "k = (''Diabetes'', ''Male'')") auto
  then have "dom (group_count Medical_Condition Gender three_male_diabetes) = {(''Diabetes'', ''Male'')}"
    by blast
  with none some show ?thesis by simp
qed

section \<open>Properties of the correlation matrix\<close>



















end
